theory Spec2Isabelle
  imports Complex_Main "HOL-Library.Sublist" "HOL-Library.AList"
    "HOL-Library.Char_ord" "HOL-Library.List_Lexorder"
begin

section \<open>Common data\<close>

text \<open>
  The notebooks are Python cells run top to bottom. Every exception a cell can raise is a
  value of \<open>error\<close>; a cell that raises returns \<open>Inl\<close> and the cells after it do not run.

  Floating-point numbers are modelled as \<open>fval\<close>: a finite value (an exact real; rounding and
  overflow of IEEE arithmetic are outside the model), the two infinities, or NaN (which
  is also how pandas marks a missing cell).
\<close>

datatype error =
    AttributeError    \<comment> \<open>\<open>re.search(...)\<close> gave \<open>None\<close>, and \<open>.group()\<close> was called on it\<close>
  | KeyError          \<comment> \<open>a dictionary or a table has no such key\<close>
  | IndexError        \<comment> \<open>a list or array index is out of range\<close>
  | StopIteration     \<comment> \<open>\<open>next\<close> on a glob that yields nothing\<close>
  | AssertionError
  | ValueError string

datatype fval = Fin real | PInf | NInf | NaN

section \<open>Tabular notebook: feature names\<close>

text \<open>
  \<^verbatim>\<open>re.search('(?<=MARKER).+(?=\.nii\.gz)', name)\<close>: the leftmost position that follows
  \<open>MARKER\<close> and from which \<open>.+\<close> can run up to an occurrence of \<open>.nii.gz\<close>; \<open>.+\<close> is greedy
  (it stops before the last such occurrence it can reach) and \<open>.\<close> does not match a newline.
  \<open>greedy_body\<close> is the match of \<^verbatim>\<open>.+(?=\.nii\.gz)\<close> at the head of a string,
  \<open>re_search marker seen rest\<close> scans \<open>rest\<close> with \<open>seen\<close> the characters already passed.
\<close>

fun greedy_body :: "string \<Rightarrow> string option" where
  "greedy_body [] = None"
| "greedy_body (c # cs) =
     (if c = CHR 0x0A then None
      else (case greedy_body cs of
              Some m \<Rightarrow> Some (c # m)
            | None \<Rightarrow> if prefix ''.nii.gz'' cs then Some [c] else None))"

fun re_search :: "string \<Rightarrow> string \<Rightarrow> string \<Rightarrow> string option" where
  "re_search marker seen [] = None"
| "re_search marker seen (c # cs) =
     (case (if suffix marker seen then greedy_body (c # cs) else None) of
        Some m \<Rightarrow> Some m
      | None \<Rightarrow> re_search marker (seen @ [c]) cs)"




section \<open>Tabular notebook: aggregation of the summary statistics\<close>

text \<open>
  A table read by \<open>pd.read_csv\<close>: its column names (pandas makes them distinct) and its
  rows, each as long as the columns.
\<close>

record dataframe =
  columns :: "string list"
  rows :: "fval list list"

definition dropna :: "dataframe \<Rightarrow> dataframe" where
  "dropna df = df\<lparr>rows := filter (\<lambda>r. NaN \<notin> set r) (rows df)\<rparr>"

text \<open>
  \<^verbatim>\<open>series[feature_names]\<close> on a row taken as a series indexed by the column names.
  A name that is not a column raises \<open>KeyError\<close> (pandas before 1.0 warns and gives NaN
  for it when another name is found; the properties below are about names that are
  columns).
\<close>

fun select_labels :: "(string \<times> fval) list \<Rightarrow> string list \<Rightarrow> error + fval list" where
  "select_labels series [] = Inr []"
| "select_labels series (n # ns) =
     (case map_of series n of
        None \<Rightarrow> Inl KeyError
      | Some v \<Rightarrow>
          (case select_labels series ns of
             Inl e \<Rightarrow> Inl e
           | Inr vs \<Rightarrow> Inr (v # vs)))"

text \<open>
  One \<^verbatim>\<open>*/*/sheet/\<close> directory: the name of the patient directory two levels up and the
  tables of the first files matching \<^verbatim>\<open>*_mean.csv\<close> and \<^verbatim>\<open>*_std.csv\<close> (\<open>None\<close>
  when no file matches).
\<close>

record sheet =
  sheet_patient :: string
  mean_csv :: "dataframe option"
  std_csv :: "dataframe option"

record agg_state =
  feature_vectors :: "fval list list"
  classes :: "int list"
  patient_ids :: "int list"

text \<open>
  The body of the aggregation loop. \<open>py_int\<close> is Python's \<open>int\<close> on a directory name
  (\<open>None\<close> where it raises \<open>ValueError\<close>), \<open>patient_id_to_case\<close> the label dictionary,
  \<open>iloc[0,:]\<close> the first row that is left. \<open>continue\<close> returns the state as it is.
\<close>

definition aggregate_sheet ::
  "(string \<Rightarrow> int option) \<Rightarrow> (int \<rightharpoonup> int) \<Rightarrow> string list \<Rightarrow> agg_state \<Rightarrow> sheet
     \<Rightarrow> error + agg_state" where
  "aggregate_sheet py_int patient_id_to_case feature_names st sh =
     (case py_int (sheet_patient sh) of
        None \<Rightarrow> Inl (ValueError ''invalid literal for int()'')
      | Some patient_id \<Rightarrow>
     (case mean_csv sh of
        None \<Rightarrow> Inl StopIteration
      | Some mean_read \<Rightarrow>
     (case std_csv sh of
        None \<Rightarrow> Inl StopIteration
      | Some std_read \<Rightarrow>
     (let mean_df = dropna mean_read; std_df = dropna std_read in
      if length (rows mean_df) = 0 \<or> length (rows std_df) = 0 then Inr st
      else
       (case select_labels (zip (columns mean_df) (hd (rows mean_df))) feature_names of
          Inl e \<Rightarrow> Inl e
        | Inr mean_values \<Rightarrow>
       (case select_labels (zip (columns std_df) (hd (rows std_df))) feature_names of
          Inl e \<Rightarrow> Inl e
        | Inr std_values \<Rightarrow>
       (let feat = mean_values @ std_values in
        case patient_id_to_case patient_id of
          None \<Rightarrow> Inl KeyError
        | Some c \<Rightarrow>
            Inr \<lparr>feature_vectors = feature_vectors st @ [feat],
                 classes = classes st @ [c],
                 patient_ids = patient_ids st @ [patient_id]\<rparr>)))))))"

fun aggregate_sheets ::
  "(string \<Rightarrow> int option) \<Rightarrow> (int \<rightharpoonup> int) \<Rightarrow> string list \<Rightarrow> agg_state \<Rightarrow> sheet list
     \<Rightarrow> error + agg_state" where
  "aggregate_sheets py_int patient_id_to_case feature_names st [] = Inr st"
| "aggregate_sheets py_int patient_id_to_case feature_names st (sh # rest) =
     (case aggregate_sheet py_int patient_id_to_case feature_names st sh of
        Inl e \<Rightarrow> Inl e
      | Inr st' \<Rightarrow> aggregate_sheets py_int patient_id_to_case feature_names st' rest)"

definition empty_agg :: agg_state where
  "empty_agg = \<lparr>feature_vectors = [], classes = [], patient_ids = []\<rparr>"

text \<open>Decimal directory names, as the data has them (\<open>2036311\<close>); used in examples.\<close>

fun digits_value :: "int \<Rightarrow> string \<Rightarrow> int option" where
  "digits_value acc [] = Some acc"
| "digits_value acc (c # cs) =
     (if CHR ''0'' \<le> c \<and> c \<le> CHR ''9''
      then digits_value (10 * acc + (of_char c - of_char (CHR ''0''))) cs
      else None)"

definition decimal_int :: "string \<Rightarrow> int option" where
  "decimal_int s = (if s = [] then None else digits_value 0 s)"

text \<open>
  The scenario of the specification: feature names \<open>a, b, c\<close>, a mean row
  \<open>{a: 1, b: 2, c: 3}\<close> and a std row \<open>{a: 0.1, b: 0.2, c: 0.3}\<close>. The columns of the
  files are in another order than the feature names, and the mean file has one more.
\<close>

definition scenario_sheet :: sheet where
  "scenario_sheet =
     \<lparr>sheet_patient = ''2036311'',
      mean_csv = Some \<lparr>columns = [''c'', ''a'', ''area'', ''b''],
                        rows = [[Fin 3, Fin 1, Fin 50, Fin 2]]\<rparr>,
      std_csv = Some \<lparr>columns = [''b'', ''c'', ''a''],
                       rows = [[Fin (2/10), Fin (3/10), Fin (1/10)]]\<rparr>\<rparr>"

text \<open>A sheet whose std table has a missing value in its only row.\<close>

definition incomplete_sheet :: sheet where
  "incomplete_sheet =
     \<lparr>sheet_patient = ''2036312'',
      mean_csv = Some \<lparr>columns = [''a'', ''b'', ''c''], rows = [[Fin 7, Fin 8, Fin 9]]\<rparr>,
      std_csv = Some \<lparr>columns = [''a'', ''b'', ''c''], rows = [[Fin 1, NaN, Fin 1]]\<rparr>\<rparr>"

section \<open>Imaging notebook: the train/test split\<close>

text \<open>
  NumPy's global generator. Its state is a value of \<open>'g\<close>; \<open>np.random.seed(n)\<close> replaces
  the state by \<open>rng_seed n\<close>, and \<open>permutation\<close> of a length reads the state and returns a
  permutation of the indices below that length with the state that follows. The Mersenne
  Twister itself is NumPy's and is a parameter here.
\<close>

record 'g generator =
  rng_seed :: "nat \<Rightarrow> 'g"
  rng_permutation :: "'g \<Rightarrow> nat \<Rightarrow> nat list \<times> 'g"

text \<open>
  \<^verbatim>\<open>np.random.choice(a, replace=False, size=n)\<close>: the elements of \<open>a\<close> at the first
  \<open>n\<close> indices of a permutation of all its indices.
\<close>

definition np_random_choice ::
  "'g generator \<Rightarrow> 'g \<Rightarrow> 'a list \<Rightarrow> nat \<Rightarrow> (error + 'a list) \<times> 'g" where
  "np_random_choice gen g a n =
     (if length a = 0 then (Inl (ValueError ''a must be non-empty''), g)
      else if n > length a
      then (Inl (ValueError ''Cannot take a larger sample than population''), g)
      else (case rng_permutation gen g (length a) of
              (idx, g') \<Rightarrow> (Inr (map (\<lambda>i. a ! i) (take n idx)), g')))"

text \<open>
  The cell that splits the patients. \<open>g\<close> is the generator's state when the cell starts;
  \<^verbatim>\<open>np.random.seed(0)\<close> replaces it. The result is the pair
  \<open>(training_patients, testing_patients)\<close> and the generator's state after the cell.
\<close>

definition train_test_split_cell ::
  "'g generator \<Rightarrow> 'g \<Rightarrow> 'a list \<Rightarrow> (error + 'a list \<times> 'a list) \<times> 'g" where
  "train_test_split_cell gen g patients_list =
     (let g0 = rng_seed gen 0 in
      case np_random_choice gen g0 patients_list 455 of
        (Inl e, g1) \<Rightarrow> (Inl e, g1)
      | (Inr training_patients, g1) \<Rightarrow>
          (Inr (training_patients,
                filter (\<lambda>patient. patient \<notin> set training_patients) patients_list),
           g1))"

text \<open>
  The size of the train set in the words of the specification:
  \<open>round(train_fraction * |patient_ids|)\<close>.
\<close>

definition spec_train_size :: "real \<Rightarrow> nat \<Rightarrow> int" where
  "spec_train_size train_fraction n = round (train_fraction * real n)"

text \<open>
  A generator for the examples: its state counts the draws, and its permutation is the
  indices in descending order.
\<close>

definition countdown_generator :: "nat generator" where
  "countdown_generator = \<lparr>rng_seed = (\<lambda>n. n), rng_permutation = (\<lambda>g n. (rev [0..<n], Suc g))\<rparr>"

section \<open>Imaging notebook: loading the feature maps\<close>

text \<open>
  A 2-D array is the list of its rows. \<open>shape\<close> gives (rows, columns); an array without rows
  is read as 0 x 0. The arrays are the loaded volumes after \<open>.T\<close>. The mask holds finite
  numbers; a feature map, as loaded, can hold NaN and infinities.
\<close>

type_synonym matrix = "real list list"

definition shape :: "'a list list \<Rightarrow> nat \<times> nat" where
  "shape m = (length m, case m of [] \<Rightarrow> 0 | r # _ \<Rightarrow> length r)"

text \<open>
  \<open>np.nan_to_num\<close> with its default arguments: NaN becomes zero, an infinity becomes the
  largest (most negative) finite value of the array's floating-point type, \<open>fmax\<close>.
\<close>

definition nan_to_num :: "real \<Rightarrow> fval \<Rightarrow> real" where
  "nan_to_num fmax v = (case v of Fin x \<Rightarrow> x | NaN \<Rightarrow> 0 | PInf \<Rightarrow> fmax | NInf \<Rightarrow> - fmax)"

text \<open>The largest finite \<open>float64\<close>.\<close>

definition float64_max :: real where
  "float64_max = (2 ^ 53 - 1) * 2 ^ 971"

text \<open>
  NumPy broadcasting of two 2-D shapes: axis by axis the lengths are equal, or one of
  them is 1 and that axis is repeated.
\<close>

definition broadcast_dim :: "nat \<Rightarrow> nat \<Rightarrow> nat option" where
  "broadcast_dim a b =
     (if a = b then Some a else if a = 1 then Some b else if b = 1 then Some a else None)"

definition stretch :: "nat \<Rightarrow> 'a list \<Rightarrow> 'a list" where
  "stretch n xs = (if length xs = 1 then replicate n (hd xs) else xs)"

definition broadcast_to :: "nat \<Rightarrow> nat \<Rightarrow> 'a list list \<Rightarrow> 'a list list" where
  "broadcast_to h w m = stretch h (map (stretch w) m)"

definition np_multiply :: "matrix \<Rightarrow> matrix \<Rightarrow> error + matrix" where
  "np_multiply a b =
     (case (broadcast_dim (fst (shape a)) (fst (shape b)),
            broadcast_dim (snd (shape a)) (snd (shape b))) of
        (Some h, Some w) \<Rightarrow>
          Inr (map2 (map2 (*)) (broadcast_to h w a) (broadcast_to h w b))
      | _ \<Rightarrow> Inl (ValueError ''operands could not be broadcast together''))"

text \<open>
  One \<^verbatim>\<open>*/*/feature_masks/\<close> directory: the name of the patient directory two levels
  up, the arrays of the files \<^verbatim>\<open>mask/*_mean.nii.gz\<close>, and the name and the array of
  every file \<^verbatim>\<open>feature/*.nii.gz\<close>.
\<close>

record sample_dir =
  sample_patient :: string
  mask_files :: "matrix list"
  feature_files :: "(string \<times> fval list list) list"

text \<open>
  \<open>patient_features\<close> is a Python dictionary: an association list in insertion order,
  where storing under a key that is present replaces the value in place.
\<close>

type_synonym feature_dict = "(string \<times> matrix) list"

fun load_features ::
  "real \<Rightarrow> matrix \<Rightarrow> feature_dict \<Rightarrow> (string \<times> fval list list) list \<Rightarrow> error + feature_dict" where
  "load_features fmax mask_array patient_features [] = Inr patient_features"
| "load_features fmax mask_array patient_features ((filename, loaded) # rest) =
     (let feature_map = map (map (nan_to_num fmax)) loaded in
      case np_multiply feature_map mask_array of
        Inl e \<Rightarrow> Inl e
      | Inr masked_feature_map \<Rightarrow>
          (case re_search ''_'' [] filename of
             None \<Rightarrow> Inl AttributeError
           | Some feature_name \<Rightarrow>
               load_features fmax mask_array
                 (AList.update feature_name masked_feature_map patient_features) rest))"

text \<open>
  The loop body up to the partition test: the label of the patient, the mask, the
  dictionary of the masked feature maps.
\<close>

definition sample_entry ::
  "(string \<Rightarrow> int option) \<Rightarrow> (int \<rightharpoonup> int) \<Rightarrow> real \<Rightarrow> sample_dir \<Rightarrow> error + feature_dict \<times> int" where
  "sample_entry py_int patient_id_to_case fmax s =
     (case py_int (sample_patient s) of
        None \<Rightarrow> Inl (ValueError ''invalid literal for int()'')
      | Some n \<Rightarrow>
     (case patient_id_to_case n of
        None \<Rightarrow> Inl KeyError
      | Some patient_class \<Rightarrow>
     (case mask_files s of
        [] \<Rightarrow> Inl IndexError
      | mask_array # _ \<Rightarrow>
     (case load_features fmax mask_array [] (feature_files s) of
        Inl e \<Rightarrow> Inl e
      | Inr patient_features \<Rightarrow> Inr (patient_features, patient_class)))))"

record cnn_state =
  train_features :: "feature_dict list"
  train_classes :: "int list"
  test_features :: "feature_dict list"
  test_classes :: "int list"

definition empty_cnn :: cnn_state where
  "empty_cnn = \<lparr>train_features = [], train_classes = [], test_features = [], test_classes = []\<rparr>"

text \<open>The loop body: the entry, then the partition test on the patient's directory name.\<close>

definition load_sample ::
  "(string \<Rightarrow> int option) \<Rightarrow> (int \<rightharpoonup> int) \<Rightarrow> real \<Rightarrow> string list \<Rightarrow> string list
     \<Rightarrow> cnn_state \<Rightarrow> sample_dir \<Rightarrow> error + cnn_state" where
  "load_sample py_int patient_id_to_case fmax training_patients testing_patients st s =
     (case sample_entry py_int patient_id_to_case fmax s of
        Inl e \<Rightarrow> Inl e
      | Inr (patient_features, patient_class) \<Rightarrow>
         (let patient_id = sample_patient s;
              is_test = patient_id \<in> set testing_patients;
              is_train = patient_id \<in> set training_patients
          in if is_test \<and> is_train then Inl AssertionError
             else if is_test
             then Inr (st\<lparr>test_features := test_features st @ [patient_features],
                          test_classes := test_classes st @ [patient_class]\<rparr>)
             else if is_train
             then Inr (st\<lparr>train_features := train_features st @ [patient_features],
                          train_classes := train_classes st @ [patient_class]\<rparr>)
             else Inl (ValueError ''Patient ID not found!'')))"

fun load_samples ::
  "(string \<Rightarrow> int option) \<Rightarrow> (int \<rightharpoonup> int) \<Rightarrow> real \<Rightarrow> string list \<Rightarrow> string list
     \<Rightarrow> cnn_state \<Rightarrow> sample_dir list \<Rightarrow> error + cnn_state" where
  "load_samples py_int patient_id_to_case fmax training_patients testing_patients st [] = Inr st"
| "load_samples py_int patient_id_to_case fmax training_patients testing_patients st (s # rest) =
     (case load_sample py_int patient_id_to_case fmax training_patients testing_patients st s of
        Inl e \<Rightarrow> Inl e
      | Inr st' \<Rightarrow>
          load_samples py_int patient_id_to_case fmax training_patients testing_patients st' rest)"

text \<open>Example samples: a 2 x 2 mask and one feature map with a NaN.\<close>

definition left_image :: sample_dir where
  "left_image =
     \<lparr>sample_patient = ''2036311'',
      mask_files = [[[1, 0], [1, 1]]],
      feature_files = [(''DPm.1_norm_box_counting.nii.gz'', [[Fin 5, Fin 6], [NaN, Fin 8]])]\<rparr>"

definition right_image :: sample_dir where
  "right_image =
     \<lparr>sample_patient = ''2036311'',
      mask_files = [[[1, 1], [0, 1]]],
      feature_files = [(''DPm.2_norm_box_counting.nii.gz'', [[Fin 1, Fin 2], [Fin 3, Fin 4]])]\<rparr>"

text \<open>
  A population of 569 patient directories named by consecutive decimal numbers, the last
  of them \<open>2036311\<close>, and its split under the example generator.
\<close>

function decimal_string :: "nat \<Rightarrow> string" where
  "decimal_string n =
     (if n < 10 then [''0123456789'' ! n]
      else decimal_string (n div 10) @ [''0123456789'' ! (n mod 10)])"
  by pat_completeness auto
termination
  by (relation "measure id") auto

definition example_patients :: "string list" where
  "example_patients = map (\<lambda>i. decimal_string (2035743 + i)) [0..<569]"

definition example_training :: "string list" where
  "example_training = map (\<lambda>i. example_patients ! i) (take 455 (rev [0..<569]))"

definition example_testing :: "string list" where
  "example_testing = filter (\<lambda>p. p \<notin> set example_training) example_patients"

section \<open>Imaging notebook: the 4-D arrays\<close>

text \<open>
  A sample of \<open>train_data\<close> is a 34 x 26 x 29 array. It is kept as the list of its 29
  channels, each the list of its 34 rows: \<open>train_data[s, i, j, c]\<close> is
  \<open>train_data ! s ! c ! i ! j\<close>.
\<close>

type_synonym tensor = "matrix list"

text \<open>
  \<open>has_shape c h w t\<close>: \<open>t\<close> has \<open>c\<close> channels of \<open>h\<close> rows of \<open>w\<close> values. The samples of
  \<open>train_data\<close> and \<open>test_data\<close> have the shape 29, 34, 26: the arrays are made by
  \<^verbatim>\<open>np.zeros((n, 34, 26, 29))\<close>.
\<close>

definition has_shape :: "nat \<Rightarrow> nat \<Rightarrow> nat \<Rightarrow> tensor \<Rightarrow> bool" where
  "has_shape c h w t \<longleftrightarrow>
     length t = c \<and> list_all (\<lambda>m. length m = h \<and> list_all (\<lambda>r. length r = w) m) t"

definition zeros_sample :: tensor where
  "zeros_sample = replicate 29 (replicate 34 (replicate 26 0))"

text \<open>The slice \<^verbatim>\<open>[0:34, 0:26]\<close>.\<close>

definition crop :: "matrix \<Rightarrow> matrix" where
  "crop m = map (take 26) (take 34 m)"

text \<open>
  \<^verbatim>\<open>train_data[sample_number, :, :, feature_number] = v\<close>: the index is checked, then
  \<open>v\<close> is broadcast to 34 x 26 (an axis of \<open>v\<close> of length 1 is repeated; any other length
  than the target's is an error).
\<close>

definition assign_channel :: "tensor \<Rightarrow> nat \<Rightarrow> matrix \<Rightarrow> error + tensor" where
  "assign_channel sample feature_number v =
     (if feature_number \<ge> 29 then Inl IndexError
      else if (fst (shape v) = 34 \<or> fst (shape v) = 1) \<and> (snd (shape v) = 26 \<or> snd (shape v) = 1)
      then Inr (sample[feature_number := broadcast_to 34 26 v])
      else Inl (ValueError ''could not broadcast input array''))"

text \<open>The inner loop over \<open>enumerate(ordered_feature_names)\<close> for one sample.\<close>

fun fill_sample :: "feature_dict \<Rightarrow> tensor \<Rightarrow> (nat \<times> string) list \<Rightarrow> error + tensor" where
  "fill_sample sample_dict sample [] = Inr sample"
| "fill_sample sample_dict sample ((feature_number, feature_name) # rest) =
     (case map_of sample_dict feature_name of
        None \<Rightarrow> Inl KeyError
      | Some m \<Rightarrow>
          (case assign_channel sample feature_number (crop m) of
             Inl e \<Rightarrow> Inl e
           | Inr sample' \<Rightarrow> fill_sample sample_dict sample' rest))"

text \<open>The outer loop over the samples of one partition, on an array of zeros.\<close>

fun fill_data :: "string list \<Rightarrow> feature_dict list \<Rightarrow> error + tensor list" where
  "fill_data ordered_feature_names [] = Inr []"
| "fill_data ordered_feature_names (sample_dict # rest) =
     (case fill_sample sample_dict zeros_sample (enumerate 0 ordered_feature_names) of
        Inl e \<Rightarrow> Inl e
      | Inr sample \<Rightarrow>
          (case fill_data ordered_feature_names rest of
             Inl e \<Rightarrow> Inl e
           | Inr samples \<Rightarrow> Inr (sample # samples)))"

text \<open>The cell: the feature names of the first train sample, sorted, order every sample.\<close>

definition combine_cell :: "cnn_state \<Rightarrow> error + tensor list \<times> tensor list" where
  "combine_cell st =
     (case train_features st of
        [] \<Rightarrow> Inl IndexError
      | first_sample # _ \<Rightarrow>
          (let ordered_feature_names = sort (map fst first_sample) in
           case fill_data ordered_feature_names (train_features st) of
             Inl e \<Rightarrow> Inl e
           | Inr train_data \<Rightarrow>
               (case fill_data ordered_feature_names (test_features st) of
                  Inl e \<Rightarrow> Inl e
                | Inr test_data \<Rightarrow> Inr (train_data, test_data))))"

text \<open>An array of \<open>h\<close> rows that all have \<open>w\<close> columns.\<close>

definition rectangular :: "nat \<Rightarrow> nat \<Rightarrow> 'a list list \<Rightarrow> bool" where
  "rectangular h w m \<longleftrightarrow> length m = h \<and> list_all (\<lambda>r. length r = w) m"



section \<open>Imaging notebook: normalization\<close>

definition epsilon :: real where
  "epsilon = 1 / 10 ^ 8"

text \<open>An operation applied element by element to two arrays of one shape.\<close>

definition elementwise :: "(real \<Rightarrow> real \<Rightarrow> real) \<Rightarrow> tensor \<Rightarrow> tensor \<Rightarrow> tensor" where
  "elementwise f a b = map2 (map2 (map2 f)) a b"

definition np_abs :: "tensor \<Rightarrow> tensor" where
  "np_abs t = map (map (map abs)) t"

text \<open>
  \<^verbatim>\<open>np.abs(full_data).max(axis=0)\<close>: the maximum over the samples, taken separately at
  every position of every channel. NumPy raises on an array without samples.
\<close>

definition max_image :: "tensor list \<Rightarrow> error + tensor" where
  "max_image full_data =
     (case full_data of
        [] \<Rightarrow> Inl (ValueError ''zero-size array to reduction operation maximum'')
      | x # xs \<Rightarrow> Inr (fold (\<lambda>s acc. elementwise max acc (np_abs s)) xs (np_abs x)))"

text \<open>The first half of the cell: both arrays divided by \<open>max_image + epsilon\<close>.\<close>

definition cross_sample :: "tensor list \<Rightarrow> tensor list \<Rightarrow> error + tensor list \<times> tensor list" where
  "cross_sample train_data test_data =
     (case max_image (train_data @ test_data) of
        Inl e \<Rightarrow> Inl e
      | Inr mi \<Rightarrow>
          (let divisor = map (map (map (\<lambda>m. m + epsilon))) mi in
           Inr (map (\<lambda>s. elementwise (/) s divisor) train_data,
                map (\<lambda>s. elementwise (/) s divisor) test_data)))"

text \<open>\<^verbatim>\<open>np.abs(feature_map).max()\<close> of one channel.\<close>

definition abs_max :: "matrix \<Rightarrow> error + real" where
  "abs_max feature_map =
     (case concat feature_map of
        [] \<Rightarrow> Inl (ValueError ''zero-size array to reduction operation maximum'')
      | x # xs \<Rightarrow> Inr (fold max (map abs xs) \<bar>x\<bar>))"

text \<open>The loop over \<open>range(29)\<close> for one sample: each channel is replaced in place.\<close>

fun within_sample_loop :: "tensor \<Rightarrow> nat list \<Rightarrow> error + tensor" where
  "within_sample_loop sample [] = Inr sample"
| "within_sample_loop sample (feature_number # rest) =
     (if feature_number \<ge> length sample then Inl IndexError
      else
       (let feature_map = sample ! feature_number in
        case abs_max feature_map of
          Inl e \<Rightarrow> Inl e
        | Inr max_val \<Rightarrow>
            within_sample_loop
              (sample[feature_number := map (map (\<lambda>x. x / (max_val + epsilon))) feature_map])
              rest))"

fun within_samples :: "tensor list \<Rightarrow> error + tensor list" where
  "within_samples [] = Inr []"
| "within_samples (sample # rest) =
     (case within_sample_loop sample [0..<29] of
        Inl e \<Rightarrow> Inl e
      | Inr sample' \<Rightarrow>
          (case within_samples rest of
             Inl e \<Rightarrow> Inl e
           | Inr rest' \<Rightarrow> Inr (sample' # rest')))"

text \<open>The whole cell: across the samples first, then within each sample, train before test.\<close>

definition normalize_cell :: "tensor list \<Rightarrow> tensor list \<Rightarrow> error + tensor list \<times> tensor list" where
  "normalize_cell train_data test_data =
     (case cross_sample train_data test_data of
        Inl e \<Rightarrow> Inl e
      | Inr (train_scaled, test_scaled) \<Rightarrow>
          (case within_samples train_scaled of
             Inl e \<Rightarrow> Inl e
           | Inr train_normalized \<Rightarrow>
               (case within_samples test_scaled of
                  Inl e \<Rightarrow> Inl e
                | Inr test_normalized \<Rightarrow> Inr (train_normalized, test_normalized))))"

text \<open>
  The cross-sample pass in the words of the specification: one maximum for each channel,
  over all the values of that channel in all train and test samples.
\<close>

definition spec_channel_max :: "tensor list \<Rightarrow> nat \<Rightarrow> real" where
  "spec_channel_max samples c = Max (\<Union>s \<in> set samples. \<Union>r \<in> set (s ! c). abs ` set r)"

text \<open>
  The within-sample pass in the words of the specification: a channel of a sample divided
  by the maximum absolute value of that channel in that sample plus epsilon.
\<close>

definition spec_within_channel :: "matrix \<Rightarrow> matrix" where
  "spec_within_channel m = map (map (\<lambda>x. x / (Max (abs ` set (concat m)) + epsilon))) m"

text \<open>
  Example samples of the full shape: one with the same value everywhere, and one whose
  channels have the value \<open>a\<close> in the first row and \<open>b\<close> in the other 33 rows.
\<close>

definition constant_sample :: "real \<Rightarrow> tensor" where
  "constant_sample v = replicate 29 (replicate 34 (replicate 26 v))"

definition two_row_sample :: "real \<Rightarrow> real \<Rightarrow> tensor" where
  "two_row_sample a b = replicate 29 (replicate 26 a # replicate 33 (replicate 26 b))"

section \<open>Properties of the tabular notebook\<close>





lemma select_labels_present:
  "set names \<subseteq> fst ` set series
     \<Longrightarrow> \<exists>vs. select_labels series names = Inr vs \<and> map Some vs = map (map_of series) names"
proof (induction names)
  case Nil
  then show ?case by simp
next
  case (Cons n ns)
  then obtain vs where vs: "select_labels series ns = Inr vs"
      "map Some vs = map (map_of series) ns"
    by auto
  from Cons.prems have "n \<in> fst ` set series" by simp
  then obtain v where "map_of series n = Some v"
    by (metis domD dom_map_of_conv_image_fst)
  with vs show ?case by simp
qed

text \<open>
  Claim C7. For a sheet whose two tables keep a row after \<open>dropna\<close> and have every feature
  name as a column, the loop body appends one vector: the values of the mean table's
  first remaining row at the names of \<open>F\<close>, in the order of \<open>F\<close>, then those of the std
  table's; its length is \<open>2 * |F|\<close>. The patient id and the label are appended with it.
\<close>

theorem aggregate_sheet_vector:
  assumes "py_int (sheet_patient sh) = Some pid"
      and "mean_csv sh = Some mdf" and "std_csv sh = Some sdf"
      and "rows (dropna mdf) = mrow # mrest" and "rows (dropna sdf) = srow # srest"
      and "length mrow = length (columns mdf)" and "length srow = length (columns sdf)"
      and "set F \<subseteq> set (columns mdf)" and "set F \<subseteq> set (columns sdf)"
      and "labels pid = Some c"
  shows "\<exists>feat. aggregate_sheet py_int labels F st sh =
            Inr \<lparr>feature_vectors = feature_vectors st @ [feat],
                 classes = classes st @ [c],
                 patient_ids = patient_ids st @ [pid]\<rparr>
          \<and> map Some feat = map (map_of (zip (columns mdf) mrow)) F
                             @ map (map_of (zip (columns sdf) srow)) F
          \<and> length feat = 2 * length F"
proof -
  have cm: "columns (dropna mdf) = columns mdf" and cs: "columns (dropna sdf) = columns sdf"
    by (simp_all add: dropna_def)
  have "set F \<subseteq> fst ` set (zip (columns mdf) mrow)"
    using assms(6,8) by (simp flip: set_map)
  from select_labels_present [OF this]
  obtain mv where mv: "select_labels (zip (columns mdf) mrow) F = Inr mv"
      "map Some mv = map (map_of (zip (columns mdf) mrow)) F"
    by blast
  have "set F \<subseteq> fst ` set (zip (columns sdf) srow)"
    using assms(7,9) by (simp flip: set_map)
  from select_labels_present [OF this]
  obtain sv where sv: "select_labels (zip (columns sdf) srow) F = Inr sv"
      "map Some sv = map (map_of (zip (columns sdf) srow)) F"
    by blast
  have l1: "length mv = length F" using mv(2) by (metis length_map)
  have l2: "length sv = length F" using sv(2) by (metis length_map)
  have "aggregate_sheet py_int labels F st sh =
          Inr \<lparr>feature_vectors = feature_vectors st @ [mv @ sv],
               classes = classes st @ [c],
               patient_ids = patient_ids st @ [pid]\<rparr>"
    using assms(1-5,10) mv(1) sv(1) by (simp add: aggregate_sheet_def cm cs)
  then show ?thesis
    using mv(2) sv(2) l1 l2 by auto
qed

text \<open>The scenario: the vector is exactly \<open>[1, 2, 3, 0.1, 0.2, 0.3]\<close>.\<close>

theorem aggregate_sheet_vector_witness:
  "aggregate_sheet decimal_int [2036311 \<mapsto> 1] [''a'', ''b'', ''c''] empty_agg scenario_sheet =
     Inr \<lparr>feature_vectors = [[Fin 1, Fin 2, Fin 3, Fin (1/10), Fin (2/10), Fin (3/10)]],
          classes = [1],
          patient_ids = [2036311]\<rparr>"
  using aggregate_sheet_vector [of decimal_int scenario_sheet 2036311
      "\<lparr>columns = [''c'', ''a'', ''area'', ''b''], rows = [[Fin 3, Fin 1, Fin 50, Fin 2]]\<rparr>"
      "\<lparr>columns = [''b'', ''c'', ''a''], rows = [[Fin (2/10), Fin (3/10), Fin (1/10)]]\<rparr>"
      "[Fin 3, Fin 1, Fin 50, Fin 2]" "[]" "[Fin (2/10), Fin (3/10), Fin (1/10)]" "[]"
      "[''a'', ''b'', ''c'']" "[2036311 \<mapsto> 1]" 1 empty_agg]
  by (auto simp add: scenario_sheet_def decimal_int_def dropna_def empty_agg_def)

lemma aggregate_sheets_drop_skipped:
  assumes "\<And>st. aggregate_sheet py_int labels F st sh = Inr st"
  shows "aggregate_sheets py_int labels F st (before @ sh # after) =
         aggregate_sheets py_int labels F st (before @ after)"
  using assms by (induction before arbitrary: st) (auto split: sum.splits)

text \<open>
  Claim C8. \<open>dropna\<close> keeps exactly the rows without a missing value. When every row of
  the mean table, or every row of the std table, has a missing value, the loop body
  leaves the three lists (vectors, labels, patient ids) as they were, and the whole
  aggregation gives what it gives without that sheet.
\<close>

theorem aggregate_sheet_skips_incomplete:
  assumes "py_int (sheet_patient sh) = Some pid"
      and "mean_csv sh = Some mdf" and "std_csv sh = Some sdf"
      and "(\<forall>r \<in> set (rows mdf). NaN \<in> set r) \<or> (\<forall>r \<in> set (rows sdf). NaN \<in> set r)"
  shows "rows (dropna mdf) = filter (\<lambda>r. NaN \<notin> set r) (rows mdf)
       \<and> rows (dropna sdf) = filter (\<lambda>r. NaN \<notin> set r) (rows sdf)
       \<and> aggregate_sheet py_int labels F st sh = Inr st
       \<and> aggregate_sheets py_int labels F st0 (before @ sh # after) =
         aggregate_sheets py_int labels F st0 (before @ after)"
proof -
  have step: "aggregate_sheet py_int labels F s sh = Inr s" for s
    using assms by (auto simp add: aggregate_sheet_def dropna_def filter_empty_conv)
  show ?thesis
    using step aggregate_sheets_drop_skipped [of py_int labels F sh st0 before after]
    by (simp add: dropna_def)
qed

text \<open>
  The scenario sheet followed by a sheet with a missing std value: only the first
  contributes.
\<close>

theorem aggregate_sheet_skips_incomplete_witness:
  "aggregate_sheet decimal_int [2036311 \<mapsto> 1, 2036312 \<mapsto> 0] [''a'', ''b'', ''c''] empty_agg
       incomplete_sheet = Inr empty_agg
   \<and> aggregate_sheets decimal_int [2036311 \<mapsto> 1, 2036312 \<mapsto> 0] [''a'', ''b'', ''c''] empty_agg
       ([scenario_sheet] @ incomplete_sheet # []) =
     aggregate_sheets decimal_int [2036311 \<mapsto> 1, 2036312 \<mapsto> 0] [''a'', ''b'', ''c''] empty_agg
       ([scenario_sheet] @ [])"
  using aggregate_sheet_skips_incomplete [of decimal_int incomplete_sheet 2036312
      "\<lparr>columns = [''a'', ''b'', ''c''], rows = [[Fin 7, Fin 8, Fin 9]]\<rparr>"
      "\<lparr>columns = [''a'', ''b'', ''c''], rows = [[Fin 1, NaN, Fin 1]]\<rparr>"
      "[2036311 \<mapsto> 1, 2036312 \<mapsto> 0]" "[''a'', ''b'', ''c'']" empty_agg empty_agg
      "[scenario_sheet]" "[]"]
  by (simp add: incomplete_sheet_def decimal_int_def)

section \<open>Properties of the train/test split\<close>

lemma np_random_choice_sample:
  assumes "rng_permutation gen g (length a) = (idx, g')" and "n \<le> length a" and "0 < length a"
  shows "np_random_choice gen g a n = (Inr (map (\<lambda>i. a ! i) (take n idx)), g')"
  using assms by (simp add: np_random_choice_def)

lemma np_random_choice_too_large:
  assumes "length a < n"
  shows "\<exists>msg. np_random_choice gen g a n = (Inl (ValueError msg), g)"
  using assms by (simp add: np_random_choice_def)

lemma train_test_split_cell_result:
  assumes "rng_permutation gen (rng_seed gen 0) (length ps) = (idx, g')" and "455 \<le> length ps"
  shows "train_test_split_cell gen g ps =
     (Inr (map (\<lambda>i. ps ! i) (take 455 idx),
           filter (\<lambda>p. p \<notin> set (map (\<lambda>i. ps ! i) (take 455 idx))) ps), g')"
proof -
  have "np_random_choice gen (rng_seed gen 0) ps 455 =
          (Inr (map (\<lambda>i. ps ! i) (take 455 idx)), g')"
    using assms by (intro np_random_choice_sample) auto
  then show ?thesis
    by (simp add: train_test_split_cell_def)
qed

lemma train_test_split_cell_too_small:
  assumes "length ps < 455"
  shows "\<exists>msg. train_test_split_cell gen g ps = (Inl (ValueError msg), rng_seed gen 0)"
  using np_random_choice_too_large [OF assms, of gen "rng_seed gen 0"]
  by (auto simp add: train_test_split_cell_def)

lemma sample_without_replacement:
  assumes "distinct idx" and "set idx = {..<length ps}" and "distinct ps" and "n \<le> length ps"
  defines "tr \<equiv> map (\<lambda>i. ps ! i) (take n idx)"
  shows "length tr = n" and "distinct tr" and "set tr \<subseteq> set ps"
proof -
  have li: "length idx = length ps"
    using assms(1,2) by (metis card_lessThan distinct_card)
  show "length tr = n"
    using li assms(4) by (simp add: tr_def)
  have sub: "set (take n idx) \<subseteq> {..<length ps}"
    using assms(2) set_take_subset [of n idx] by auto
  have "inj_on (\<lambda>i. ps ! i) {..<length ps}"
    using assms(3) by (auto simp add: inj_on_def nth_eq_iff_index_eq)
  then have "inj_on (\<lambda>i. ps ! i) (set (take n idx))"
    using sub by (rule inj_on_subset)
  then show "distinct tr"
    using assms(1) by (simp add: tr_def distinct_map)
  show "set tr \<subseteq> set ps"
    using sub by (auto simp add: tr_def)
qed

lemma remaining_patients:
  assumes "distinct ps" and "distinct tr" and "set tr \<subseteq> set ps"
  defines "te \<equiv> filter (\<lambda>p. p \<notin> set tr) ps"
  shows "length te = length ps - length tr" and "set tr \<inter> set te = {}"
    and "set tr \<union> set te = set ps" and "distinct te"
proof -
  have "length te = card ({p. p \<notin> set tr} \<inter> set ps)"
    using assms(1) by (simp add: te_def distinct_length_filter)
  also have "{p. p \<notin> set tr} \<inter> set ps = set ps - set tr"
    by auto
  also have "card (set ps - set tr) = card (set ps) - card (set tr)"
    using assms(3) by (simp add: card_Diff_subset)
  finally show "length te = length ps - length tr"
    using assms(1,2) by (simp add: distinct_card)
  show "set tr \<inter> set te = {}"
    by (auto simp add: te_def)
  show "set tr \<union> set te = set ps"
    using assms(3) by (auto simp add: te_def)
  show "distinct te"
    using assms(1) by (simp add: te_def)
qed

lemma countdown_generator_simps:
  "rng_permutation countdown_generator g n = (rev [0..<n], Suc g)"
  "rng_seed countdown_generator k = k"
  by (simp_all add: countdown_generator_def)

text \<open>
  Claim C2, as amended. The cell has no train fraction: the size of the train set is the
  constant 455. For a population of distinct patient ids and the permutation the seeded
  generator draws: with at least 455 patients, the train set is the 455 patients at the
  first 455 indices of the permutation (a sample without replacement), the test set is
  the remaining patients in the order of the population, the two are disjoint and their
  union is the population; with fewer than 455 patients the cell fails with \<open>ValueError\<close>.
\<close>

theorem train_test_split_cell_partition:
  assumes perm: "rng_permutation gen (rng_seed gen 0) (length ps) = (idx, g')"
      and idx: "distinct idx" "set idx = {..<length ps}"
      and ps: "distinct ps"
  shows "(455 \<le> length ps \<longrightarrow>
           (\<exists>tr te. train_test_split_cell gen g ps = (Inr (tr, te), g')
              \<and> tr = map (\<lambda>i. ps ! i) (take 455 idx)
              \<and> te = filter (\<lambda>p. p \<notin> set tr) ps
              \<and> length tr = 455 \<and> distinct tr \<and> set tr \<subseteq> set ps
              \<and> length te = length ps - 455 \<and> distinct te
              \<and> set tr \<inter> set te = {} \<and> set tr \<union> set te = set ps))
       \<and> (length ps < 455 \<longrightarrow>
           (\<exists>msg. fst (train_test_split_cell gen g ps) = Inl (ValueError msg)))"
proof (intro conjI impI)
  assume n: "455 \<le> length ps"
  define tr where "tr = map (\<lambda>i. ps ! i) (take 455 idx)"
  define te where "te = filter (\<lambda>p. p \<notin> set tr) ps"
  have cell: "train_test_split_cell gen g ps = (Inr (tr, te), g')"
    using train_test_split_cell_result [OF perm n] by (simp add: tr_def te_def)
  have a: "length tr = 455" "distinct tr" "set tr \<subseteq> set ps"
    using sample_without_replacement [OF idx ps n] by (simp_all add: tr_def)
  have b: "length te = length ps - length tr" "set tr \<inter> set te = {}"
      "set tr \<union> set te = set ps" "distinct te"
    using remaining_patients [OF ps a(2,3)] by (simp_all add: te_def)
  show "\<exists>tr te. train_test_split_cell gen g ps = (Inr (tr, te), g')
              \<and> tr = map (\<lambda>i. ps ! i) (take 455 idx)
              \<and> te = filter (\<lambda>p. p \<notin> set tr) ps
              \<and> length tr = 455 \<and> distinct tr \<and> set tr \<subseteq> set ps
              \<and> length te = length ps - 455 \<and> distinct te
              \<and> set tr \<inter> set te = {} \<and> set tr \<union> set te = set ps"
    using cell a b tr_def te_def by auto
next
  assume "length ps < 455"
  from train_test_split_cell_too_small [OF this, of gen g]
  show "\<exists>msg. fst (train_test_split_cell gen g ps) = Inl (ValueError msg)"
    by auto
qed

text \<open>The 569 patients of the notebook: 455 in the train set, 114 in the test set.\<close>

theorem train_test_split_cell_partition_witness:
  "train_test_split_cell countdown_generator 7 [0..<569] =
     (Inr (map (\<lambda>i. [0..<569] ! i) (take 455 (rev [0..<569])),
           filter (\<lambda>p. p \<notin> set (map (\<lambda>i. [0..<569] ! i) (take 455 (rev [0..<569]))))
             [0..<569]), 1)
   \<and> length (map (\<lambda>i. [0..<569] ! i) (take 455 (rev [0..<569]))) = 455
   \<and> length (filter (\<lambda>p. p \<notin> set (map (\<lambda>i. [0..<569] ! i) (take 455 (rev [0..<569]))))
        [0..<569]) = 114"
  using train_test_split_cell_partition [of countdown_generator "[0..<569]" "rev [0..<569]" 1 7]
  by (simp add: countdown_generator_simps atLeast0LessThan)

text \<open>
  Claim C2 as it is written gives the train set \<open>round(f * N)\<close> patients. With 600
  patients and the fraction 0.8 that is 480; the cell returns 455.
\<close>

theorem train_test_split_cell_size_counterexample:
  "length (fst (projr (fst (train_test_split_cell countdown_generator 7 [0..<600])))) = 455
   \<and> spec_train_size (8/10) (length [0..<600]) = 480"
  using train_test_split_cell_result [of countdown_generator "[0..<600]" "rev [0..<600]" 1 7]
  by (simp add: countdown_generator_simps spec_train_size_def)







section \<open>Properties of the imaging loader\<close>

lemmas loader_eval =
  sample_entry_def left_image_def right_image_def decimal_int_def np_multiply_def shape_def
  broadcast_dim_def broadcast_to_def stretch_def nan_to_num_def suffix_to_prefix
  load_sample_def empty_cnn_def

lemma load_sample_cases:
  assumes "sample_entry py_int labels fmax s = Inr (feats, cls)"
  shows "load_sample py_int labels fmax tr te st s =
     (if sample_patient s \<in> set te \<and> sample_patient s \<in> set tr then Inl AssertionError
      else if sample_patient s \<in> set te
        then Inr (st\<lparr>test_features := test_features st @ [feats],
                     test_classes := test_classes st @ [cls]\<rparr>)
      else if sample_patient s \<in> set tr
        then Inr (st\<lparr>train_features := train_features st @ [feats],
                     train_classes := train_classes st @ [cls]\<rparr>)
      else Inl (ValueError ''Patient ID not found!''))"
  using assms by (simp add: load_sample_def)

lemma load_sample_Inr:
  assumes "load_sample py_int labels fmax tr te st s = Inr st'"
  shows "\<exists>feats cls. sample_entry py_int labels fmax s = Inr (feats, cls)
     \<and> ((sample_patient s \<in> set tr \<and> sample_patient s \<notin> set te
           \<and> st' = st\<lparr>train_features := train_features st @ [feats],
                       train_classes := train_classes st @ [cls]\<rparr>)
        \<or> (sample_patient s \<in> set te \<and> sample_patient s \<notin> set tr
           \<and> st' = st\<lparr>test_features := test_features st @ [feats],
                       test_classes := test_classes st @ [cls]\<rparr>))"
  using assms by (auto simp add: load_sample_def Let_def split: sum.splits if_splits)

lemma load_sample_unassigned:
  assumes "sample_patient s \<notin> set tr" and "sample_patient s \<notin> set te"
  shows "isl (load_sample py_int labels fmax tr te st s)"
  using assms by (auto simp add: load_sample_def Let_def split: sum.splits)

lemma load_sample_in_both:
  assumes "sample_patient s \<in> set tr" and "sample_patient s \<in> set te"
  shows "isl (load_sample py_int labels fmax tr te st s)"
  using assms by (auto simp add: load_sample_def Let_def split: sum.splits)

lemma load_samples_abort:
  assumes "s \<in> set samples" and "\<And>st. isl (load_sample py_int labels fmax tr te st s)"
  shows "isl (load_samples py_int labels fmax tr te st samples)"
  using assms(1)
proof (induction samples arbitrary: st)
  case Nil
  then show ?case by simp
next
  case (Cons a rest)
  show ?case
  proof (cases "load_sample py_int labels fmax tr te st a")
    case (Inl e)
    then show ?thesis by simp
  next
    case (Inr st')
    then have "a \<noteq> s"
      using assms(2) [of st] by auto
    with Cons.prems have "s \<in> set rest"
      by simp
    from Cons.IH [OF this] Inr show ?thesis
      by simp
  qed
qed

text \<open>
  Claim C10. A sample whose patient id is in neither list makes the loop body, and the
  run over any list of samples that holds it, end in an error and never in a state; when
  the steps before the partition test succeed the error is
  \<open>ValueError('Patient ID not found!')\<close>. The same holds for a patient id in both lists,
  with \<open>AssertionError\<close>. When the loop body succeeds, the sample's dictionary and label
  are appended either to the train lists or to the test lists, and the other two lists
  are unchanged.
\<close>

theorem load_sample_partition_errors:
  "(sample_patient s \<notin> set tr \<and> sample_patient s \<notin> set te \<longrightarrow>
      isl (load_sample py_int labels fmax tr te st s)
      \<and> (s \<in> set samples \<longrightarrow> isl (load_samples py_int labels fmax tr te st0 samples))
      \<and> (\<forall>feats cls. sample_entry py_int labels fmax s = Inr (feats, cls) \<longrightarrow>
            load_sample py_int labels fmax tr te st s =
              Inl (ValueError ''Patient ID not found!'')))
   \<and> (sample_patient s \<in> set tr \<and> sample_patient s \<in> set te \<longrightarrow>
      isl (load_sample py_int labels fmax tr te st s)
      \<and> (s \<in> set samples \<longrightarrow> isl (load_samples py_int labels fmax tr te st0 samples))
      \<and> (\<forall>feats cls. sample_entry py_int labels fmax s = Inr (feats, cls) \<longrightarrow>
            load_sample py_int labels fmax tr te st s = Inl AssertionError))
   \<and> (\<forall>st'. load_sample py_int labels fmax tr te st s = Inr st' \<longrightarrow>
        (\<exists>feats cls. sample_entry py_int labels fmax s = Inr (feats, cls)
          \<and> ((train_features st' = train_features st @ [feats]
               \<and> train_classes st' = train_classes st @ [cls]
               \<and> test_features st' = test_features st
               \<and> test_classes st' = test_classes st)
            \<or> (test_features st' = test_features st @ [feats]
               \<and> test_classes st' = test_classes st @ [cls]
               \<and> train_features st' = train_features st
               \<and> train_classes st' = train_classes st))
          \<and> \<not> (train_features st' = train_features st @ [feats]
               \<and> test_features st' = test_features st @ [feats])))"
proof (intro conjI impI allI)
  fix st'
  assume "load_sample py_int labels fmax tr te st s = Inr st'"
  from load_sample_Inr [OF this]
  show "\<exists>feats cls. sample_entry py_int labels fmax s = Inr (feats, cls)
          \<and> ((train_features st' = train_features st @ [feats]
               \<and> train_classes st' = train_classes st @ [cls]
               \<and> test_features st' = test_features st
               \<and> test_classes st' = test_classes st)
            \<or> (test_features st' = test_features st @ [feats]
               \<and> test_classes st' = test_classes st @ [cls]
               \<and> train_features st' = train_features st
               \<and> train_classes st' = train_classes st))
          \<and> \<not> (train_features st' = train_features st @ [feats]
               \<and> test_features st' = test_features st @ [feats])"
    by auto
qed (auto simp add: load_sample_unassigned load_sample_in_both load_sample_cases
      intro: load_samples_abort)

text \<open>
  The left image of patient 2036311: with lists that do not hold the patient the loop
  body raises \<open>Patient ID not found!\<close>, with the patient in both it fails the assertion,
  and with the patient in the train list only the entry is appended to the train lists.
\<close>

theorem load_sample_partition_errors_witness:
  "load_sample decimal_int [2036311 \<mapsto> 1] float64_max [''2036312''] [''2036313''] empty_cnn
      left_image = Inl (ValueError ''Patient ID not found!'')
   \<and> isl (load_samples decimal_int [2036311 \<mapsto> 1] float64_max [''2036312''] [''2036313''] empty_cnn
      [left_image])
   \<and> load_sample decimal_int [2036311 \<mapsto> 1] float64_max [''2036311''] [''2036311''] empty_cnn
      left_image = Inl AssertionError
   \<and> load_sample decimal_int [2036311 \<mapsto> 1] float64_max [''2036311''] [''2036313''] empty_cnn
      left_image =
        Inr \<lparr>train_features = [[(''norm_box_counting'', [[5, 0], [0, 8]])]],
             train_classes = [1], test_features = [], test_classes = []\<rparr>"
  using load_sample_partition_errors [of left_image "[''2036312'']" "[''2036313'']" decimal_int
      "[2036311 \<mapsto> 1]" float64_max empty_cnn "[left_image]" empty_cnn]
    load_sample_partition_errors [of left_image "[''2036311'']" "[''2036311'']" decimal_int
      "[2036311 \<mapsto> 1]" float64_max empty_cnn "[left_image]" empty_cnn]
  by (simp add: loader_eval)

lemma load_samples_lists:
  assumes "load_samples py_int labels fmax tr te st samples = Inr st'"
  shows "map Inr (train_features st') = map Inr (train_features st)
            @ map (map_sum id fst \<circ> sample_entry py_int labels fmax)
                (filter (\<lambda>s. sample_patient s \<in> set tr) samples)
       \<and> map Inr (train_classes st') = map Inr (train_classes st)
            @ map (map_sum id snd \<circ> sample_entry py_int labels fmax)
                (filter (\<lambda>s. sample_patient s \<in> set tr) samples)
       \<and> map Inr (test_features st') = map Inr (test_features st)
            @ map (map_sum id fst \<circ> sample_entry py_int labels fmax)
                (filter (\<lambda>s. sample_patient s \<in> set te) samples)
       \<and> map Inr (test_classes st') = map Inr (test_classes st)
            @ map (map_sum id snd \<circ> sample_entry py_int labels fmax)
                (filter (\<lambda>s. sample_patient s \<in> set te) samples)
       \<and> (\<forall>s \<in> set samples. (sample_patient s \<in> set tr) \<noteq> (sample_patient s \<in> set te))
       \<and> (\<forall>s \<in> set samples. \<exists>feats cls. sample_entry py_int labels fmax s = Inr (feats, cls))"
  using assms
proof (induction samples arbitrary: st)
  case Nil
  then show ?case by simp
next
  case (Cons a rest)
  from Cons.prems obtain st1
    where st1: "load_sample py_int labels fmax tr te st a = Inr st1"
      and rest: "load_samples py_int labels fmax tr te st1 rest = Inr st'"
    by (auto split: sum.splits)
  from load_sample_Inr [OF st1] Cons.IH [OF rest] show ?case
    by auto
qed

lemma sample_entry_label:
  assumes "sample_entry py_int labels fmax s = Inr (feats, cls)"
  shows "\<exists>n. py_int (sample_patient s) = Some n \<and> labels n = Some cls"
  using assms by (auto simp add: sample_entry_def split: option.splits list.splits sum.splits)

lemma train_test_split_cell_testing:
  assumes "fst (train_test_split_cell gen g ps) = Inr (tr, te)"
  shows "te = filter (\<lambda>p. p \<notin> set tr) ps"
  using assms
  by (auto simp add: train_test_split_cell_def Let_def split: prod.splits sum.splits)

section \<open>The partition of the patients and of their samples\<close>

lemma example_patients_last: "example_patients ! 568 = ''2036311''"
  by (simp add: example_patients_def)

lemma rev_upt_569: "rev [0..<569] = 568 # rev [0..<568]"
proof -
  have "[0..<Suc 568] = [0..<568] @ [568]"
    by (rule upt_Suc_append) simp
  then show ?thesis by simp
qed

lemma example_training_member: "''2036311'' \<in> set example_training"
  by (simp add: example_training_def rev_upt_569 example_patients_last)

lemma example_testing_member: "''2036311'' \<notin> set example_testing"
  using example_training_member by (simp add: example_testing_def)

lemma example_patients_length: "length example_patients = 569"
  by (simp add: example_patients_def)

lemma example_split: "fst (train_test_split_cell countdown_generator 7 example_patients) = Inr (example_training, example_testing)"
  using train_test_split_cell_result [of countdown_generator example_patients "rev [0..<569]" 1 7]
  by (simp add: countdown_generator_simps example_training_def example_testing_def example_patients_length)

lemma example_run: "load_samples decimal_int [2036311 \<mapsto> 1] float64_max example_training example_testing empty_cnn
        [left_image, right_image] =
      Inr \<lparr>train_features = [[(''norm_box_counting'', [[5, 0], [0, 8]])],
                              [(''norm_box_counting'', [[1, 2], [0, 4]])]],
           train_classes = [1, 1], test_features = [], test_classes = []\<rparr>"
  using example_training_member example_testing_member
  by (simp add: loader_eval)

text \<open>
  Claim C1, as amended. For a split of the population and a run of the loader that both
  succeed: no patient id is in both lists; every patient of the population, and the
  patient of every sample, is in exactly one of them; the train lists hold, in the order
  of the samples, the dictionary and the label of exactly the samples whose patient is a
  train patient, and the test lists those of the test patients; two samples of one
  patient get the same label and go to the same partition. The entries are the feature
  dictionary and the label: the loader stores no patient id with them.
\<close>

theorem patient_partition:
  assumes split: "fst (train_test_split_cell gen g patients_list) = Inr (tr, te)"
      and run: "load_samples py_int labels fmax tr te empty_cnn samples = Inr st"
  shows "set tr \<inter> set te = {}
       \<and> (\<forall>p \<in> set patients_list. (p \<in> set tr) \<noteq> (p \<in> set te))
       \<and> (\<forall>s \<in> set samples. (sample_patient s \<in> set tr) \<noteq> (sample_patient s \<in> set te))
       \<and> map Inr (train_features st) =
           map (map_sum id fst \<circ> sample_entry py_int labels fmax)
             (filter (\<lambda>s. sample_patient s \<in> set tr) samples)
       \<and> map Inr (train_classes st) =
           map (map_sum id snd \<circ> sample_entry py_int labels fmax)
             (filter (\<lambda>s. sample_patient s \<in> set tr) samples)
       \<and> map Inr (test_features st) =
           map (map_sum id fst \<circ> sample_entry py_int labels fmax)
             (filter (\<lambda>s. sample_patient s \<in> set te) samples)
       \<and> map Inr (test_classes st) =
           map (map_sum id snd \<circ> sample_entry py_int labels fmax)
             (filter (\<lambda>s. sample_patient s \<in> set te) samples)
       \<and> (\<forall>s1 \<in> set samples. \<forall>s2 \<in> set samples.
            sample_patient s1 = sample_patient s2 \<longrightarrow>
              (\<exists>f1 f2 c. sample_entry py_int labels fmax s1 = Inr (f1, c)
                       \<and> sample_entry py_int labels fmax s2 = Inr (f2, c))
              \<and> (sample_patient s1 \<in> set tr) = (sample_patient s2 \<in> set tr)
              \<and> (sample_patient s1 \<in> set te) = (sample_patient s2 \<in> set te))"
proof -
  have te: "te = filter (\<lambda>p. p \<notin> set tr) patients_list"
    using split by (rule train_test_split_cell_testing)
  have disj: "set tr \<inter> set te = {}" and pop: "\<forall>p \<in> set patients_list. (p \<in> set tr) \<noteq> (p \<in> set te)"
    by (auto simp add: te)
  note lists = load_samples_lists [OF run]
  have same: "\<exists>f1 f2 c. sample_entry py_int labels fmax s1 = Inr (f1, c)
                       \<and> sample_entry py_int labels fmax s2 = Inr (f2, c)"
    if "s1 \<in> set samples" "s2 \<in> set samples" "sample_patient s1 = sample_patient s2" for s1 s2
  proof -
    from lists that obtain f1 c1 f2 c2 where e: "sample_entry py_int labels fmax s1 = Inr (f1, c1)"
        "sample_entry py_int labels fmax s2 = Inr (f2, c2)" by blast
    from sample_entry_label [OF e(1)] sample_entry_label [OF e(2)] that(3) have "c1 = c2" by auto
    with e show ?thesis by blast
  qed
  show ?thesis
    using disj pop lists same by (simp add: empty_cnn_def)
qed

text \<open>
  The two images of patient 2036311, a train patient of the example split: two entries
  with the label 1, both in the train lists.
\<close>

theorem patient_partition_witness:
  "fst (train_test_split_cell countdown_generator 7 example_patients) = Inr (example_training, example_testing)
   \<and> load_samples decimal_int [2036311 \<mapsto> 1] float64_max example_training example_testing empty_cnn
        [left_image, right_image] =
      Inr \<lparr>train_features = [[(''norm_box_counting'', [[5, 0], [0, 8]])],
                              [(''norm_box_counting'', [[1, 2], [0, 4]])]],
           train_classes = [1, 1], test_features = [], test_classes = []\<rparr>
   \<and> set example_training \<inter> set example_testing = {}
   \<and> sample_patient left_image = sample_patient right_image
   \<and> sample_patient left_image \<in> set example_training"
  using patient_partition [OF example_split example_run] example_split example_run example_training_member
  by (simp add: left_image_def right_image_def)

text \<open>
  Claim C1 as it is written has the entries carry the patient id. The same image under
  two different train patients with the same label leaves the same state: nothing in
  the lists tells the two patients apart.
\<close>

theorem patient_partition_entries_counterexample:
  "load_samples decimal_int [1 \<mapsto> 1, 2 \<mapsto> 1] float64_max [''1'', ''2''] [] empty_cnn
      [left_image\<lparr>sample_patient := ''1''\<rparr>] =
     Inr \<lparr>train_features = [[(''norm_box_counting'', [[5, 0], [0, 8]])]],
          train_classes = [1], test_features = [], test_classes = []\<rparr>
   \<and> load_samples decimal_int [1 \<mapsto> 1, 2 \<mapsto> 1] float64_max [''1'', ''2''] [] empty_cnn
      [left_image\<lparr>sample_patient := ''2''\<rparr>] =
     Inr \<lparr>train_features = [[(''norm_box_counting'', [[5, 0], [0, 8]])]],
          train_classes = [1], test_features = [], test_classes = []\<rparr>"
  by (simp add: loader_eval)

section \<open>Properties of the normalization\<close>

lemma has_shape_nth:
  assumes "has_shape c h w t" "k < c"
  shows "length (t ! k) = h" and "i < h \<Longrightarrow> length (t ! k ! i) = w"
  using assms by (auto simp add: has_shape_def list_all_length)

lemma has_shape_length: "has_shape c h w t \<Longrightarrow> length t = c"
  by (simp add: has_shape_def)

lemma has_shapeI:
  assumes "length t = c" "\<And>k. k < c \<Longrightarrow> length (t ! k) = h"
    "\<And>k i. k < c \<Longrightarrow> i < h \<Longrightarrow> length (t ! k ! i) = w"
  shows "has_shape c h w t"
  using assms by (auto simp add: has_shape_def list_all_length)

lemma elementwise_nth:
  assumes "has_shape c h w a" "has_shape c h w b" "k < c" "i < h" "j < w"
  shows "elementwise f a b ! k ! i ! j = f (a ! k ! i ! j) (b ! k ! i ! j)"
  using assms has_shape_nth[OF assms(1,3)] has_shape_nth[OF assms(2,3)]
  by (simp add: elementwise_def has_shape_length)

lemma elementwise_shape:
  assumes "has_shape c h w a" "has_shape c h w b"
  shows "has_shape c h w (elementwise f a b)"
proof (rule has_shapeI)
  show "length (elementwise f a b) = c" using assms by (simp add: elementwise_def has_shape_length)
  show "length (elementwise f a b ! k) = h" if "k < c" for k
    using that has_shape_nth(1)[OF assms(1) that] has_shape_nth(1)[OF assms(2) that] assms
    by (simp add: elementwise_def has_shape_length)
  show "length (elementwise f a b ! k ! i) = w" if "k < c" "i < h" for k i
    using that has_shape_nth[OF assms(1) that(1)] has_shape_nth[OF assms(2) that(1)] assms
    by (simp add: elementwise_def has_shape_length)
qed

lemma map3_nth:
  assumes "has_shape c h w a" "k < c" "i < h" "j < w"
  shows "map (map (map g)) a ! k ! i ! j = g (a ! k ! i ! j)"
  using assms has_shape_nth[OF assms(1,2)] by (simp add: has_shape_length)

lemma map3_shape:
  assumes "has_shape c h w a"
  shows "has_shape c h w (map (map (map g)) a)"
  using assms by (auto simp add: has_shape_def list_all_length)

lemma fold_max_image:
  assumes "has_shape c h w acc" "\<forall>s \<in> set xs. has_shape c h w s"
  shows "has_shape c h w (fold (\<lambda>s acc. elementwise max acc (np_abs s)) xs acc)
       \<and> (k < c \<longrightarrow> i < h \<longrightarrow> j < w \<longrightarrow>
            fold (\<lambda>s acc. elementwise max acc (np_abs s)) xs acc ! k ! i ! j =
            fold max (map (\<lambda>s. \<bar>s ! k ! i ! j\<bar>) xs) (acc ! k ! i ! j))"
  using assms
proof (induction xs arbitrary: acc)
  case Nil then show ?case by simp
next
  case (Cons x xs)
  have sx: "has_shape c h w (np_abs x)" using Cons.prems(2) by (simp add: np_abs_def map3_shape)
  have s1: "has_shape c h w (elementwise max acc (np_abs x))"
    using Cons.prems(1) sx by (rule elementwise_shape)
  have nx: "elementwise max acc (np_abs x) ! k ! i ! j = max (acc ! k ! i ! j) \<bar>x ! k ! i ! j\<bar>"
    if "k < c" "i < h" "j < w"
    using that Cons.prems sx
    by (simp add: elementwise_nth [where c=c and h=h and w=w] np_abs_def
        map3_nth [where c=c and h=h and w=w])
  from Cons.IH[OF s1] Cons.prems(2) nx show ?case by (simp add: max.commute)
qed

lemma max_image_nth:
  assumes "\<forall>s \<in> set full. has_shape c h w s" "full \<noteq> []"
  shows "\<exists>mi. max_image full = Inr mi \<and> has_shape c h w mi
      \<and> (\<forall>k < c. \<forall>i < h. \<forall>j < w. mi ! k ! i ! j = Max ((\<lambda>s. \<bar>s ! k ! i ! j\<bar>) ` set full))"
proof -
  from assms(2) obtain x xs where full: "full = x # xs" by (cases full) auto
  have sx: "has_shape c h w (np_abs x)" using assms(1) full by (simp add: np_abs_def map3_shape)
  have xs: "\<forall>s \<in> set xs. has_shape c h w s" using assms(1) full by simp
  define mi where "mi = fold (\<lambda>s acc. elementwise max acc (np_abs s)) xs (np_abs x)"
  have mi: "max_image full = Inr mi" by (simp add: max_image_def full mi_def)
  have sh: "has_shape c h w mi" using fold_max_image[OF sx xs] by (simp add: mi_def)
  have "mi ! k ! i ! j = Max ((\<lambda>s. \<bar>s ! k ! i ! j\<bar>) ` set full)" if "k < c" "i < h" "j < w" for k i j
  proof -
    have "mi ! k ! i ! j = fold max (map (\<lambda>s. \<bar>s ! k ! i ! j\<bar>) xs) (np_abs x ! k ! i ! j)"
      using fold_max_image[OF sx xs, of k i j] that by (simp add: mi_def)
    also have "np_abs x ! k ! i ! j = \<bar>x ! k ! i ! j\<bar>"
      using assms(1) full that by (simp add: np_abs_def map3_nth [where c=c and h=h and w=w])
    also have "fold max (map (\<lambda>s. \<bar>s ! k ! i ! j\<bar>) xs) \<bar>x ! k ! i ! j\<bar>
        = Max (set (\<bar>x ! k ! i ! j\<bar> # map (\<lambda>s. \<bar>s ! k ! i ! j\<bar>) xs))"
      by (rule Max.set_eq_fold [symmetric])
    finally show ?thesis by (simp add: full)
  qed
  with mi sh show ?thesis by blast
qed

lemma cross_sample_nth:
  assumes "\<forall>s \<in> set (train @ test). has_shape c h w s" "train @ test \<noteq> []"
  shows "\<exists>tr te. cross_sample train test = Inr (tr, te)
      \<and> length tr = length train \<and> length te = length test
      \<and> (\<forall>s \<in> set (tr @ te). has_shape c h w s)
      \<and> (\<forall>n < length train. \<forall>k < c. \<forall>i < h. \<forall>j < w.
           tr ! n ! k ! i ! j = train ! n ! k ! i ! j
              / (Max ((\<lambda>s. \<bar>s ! k ! i ! j\<bar>) ` set (train @ test)) + epsilon))
      \<and> (\<forall>n < length test. \<forall>k < c. \<forall>i < h. \<forall>j < w.
           te ! n ! k ! i ! j = test ! n ! k ! i ! j
              / (Max ((\<lambda>s. \<bar>s ! k ! i ! j\<bar>) ` set (train @ test)) + epsilon))"
proof -
  from max_image_nth[OF assms] obtain mi where mi: "max_image (train @ test) = Inr mi"
    "has_shape c h w mi"
    "\<forall>k < c. \<forall>i < h. \<forall>j < w. mi ! k ! i ! j = Max ((\<lambda>s. \<bar>s ! k ! i ! j\<bar>) ` set (train @ test))"
    by blast
  define d where "d = map (map (map (\<lambda>m. m + epsilon))) mi"
  have dsh: "has_shape c h w d" using mi(2) by (simp add: d_def map3_shape)
  have dn: "d ! k ! i ! j = Max ((\<lambda>s. \<bar>s ! k ! i ! j\<bar>) ` set (train @ test)) + epsilon"
    if "k < c" "i < h" "j < w" for k i j
    using that mi(2,3) by (simp add: d_def map3_nth [where c=c and h=h and w=w])
  have cs: "cross_sample train test =
      Inr (map (\<lambda>s. elementwise (/) s d) train, map (\<lambda>s. elementwise (/) s d) test)"
    by (simp add: cross_sample_def mi(1) d_def Let_def)
  have sh: "has_shape c h w (elementwise (/) s d)" if "s \<in> set (train @ test)" for s
    using assms(1) that dsh by (intro elementwise_shape) auto
  have val: "elementwise (/) s d ! k ! i ! j = s ! k ! i ! j
              / (Max ((\<lambda>s. \<bar>s ! k ! i ! j\<bar>) ` set (train @ test)) + epsilon)"
    if "s \<in> set (train @ test)" "k < c" "i < h" "j < w" for s k i j
    using assms(1) that dsh dn by (simp add: elementwise_nth [where c=c and h=h and w=w])
  show ?thesis
    using cs sh val by (auto simp add: nth_append)
qed

lemma has_shape_constant_sample: "has_shape 29 34 26 (constant_sample v)"
  by (simp add: has_shape_def constant_sample_def list_all_iff)

lemma has_shape_two_row_sample: "has_shape 29 34 26 (two_row_sample a b)"
  by (simp add: has_shape_def two_row_sample_def list_all_iff)

text \<open>
  Claim C4, as amended. The maximum is not one number for each channel: \<open>max(axis=0)\<close>
  gives one maximum for each position (row, column) of each channel, taken over all train
  and test samples jointly. Every sample's value at a position, in both partitions, is
  divided by the maximum of that position plus epsilon.
\<close>

theorem cross_sample_position_maximum:
  assumes "\<forall>s \<in> set (train @ test). has_shape 29 34 26 s" and "train @ test \<noteq> []"
  shows "\<exists>tr te. cross_sample train test = Inr (tr, te)
      \<and> length tr = length train \<and> length te = length test
      \<and> (\<forall>n < length train. \<forall>k < 29. \<forall>i < 34. \<forall>j < 26.
           tr ! n ! k ! i ! j = train ! n ! k ! i ! j
              / (Max ((\<lambda>s. \<bar>s ! k ! i ! j\<bar>) ` set (train @ test)) + epsilon))
      \<and> (\<forall>n < length test. \<forall>k < 29. \<forall>i < 34. \<forall>j < 26.
           te ! n ! k ! i ! j = test ! n ! k ! i ! j
              / (Max ((\<lambda>s. \<bar>s ! k ! i ! j\<bar>) ` set (train @ test)) + epsilon))"
  using cross_sample_nth [OF assms] by blast

text \<open>
  The scenario: a train sample with the value 4 and a test sample with the value \<open>-10\<close>
  (at every position). Both are divided by \<open>10 + 1e-8\<close>.
\<close>

theorem cross_sample_position_maximum_witness:
  "fst (projr (cross_sample [constant_sample 4] [constant_sample (- 10)])) ! 0 ! 0 ! 0 ! 0
      = 4 / (10 + 1 / 10 ^ 8)
   \<and> snd (projr (cross_sample [constant_sample 4] [constant_sample (- 10)])) ! 0 ! 0 ! 0 ! 0
      = - 10 / (10 + 1 / 10 ^ 8)"
proof -
  have sh: "\<forall>s \<in> set ([constant_sample 4] @ [constant_sample (- 10)]). has_shape 29 34 26 s"
    by (simp add: has_shape_constant_sample)
  have ne: "[constant_sample 4] @ [constant_sample (- 10)] \<noteq> []" by simp
  from cross_sample_position_maximum [OF sh ne] obtain tr te where
    r: "cross_sample [constant_sample 4] [constant_sample (- 10)] = Inr (tr, te)"
    and t: "\<forall>n < length [constant_sample 4]. \<forall>k < 29. \<forall>i < 34. \<forall>j < 26.
           tr ! n ! k ! i ! j = [constant_sample 4] ! n ! k ! i ! j
              / (Max ((\<lambda>s. \<bar>s ! k ! i ! j\<bar>) ` set ([constant_sample 4] @ [constant_sample (- 10)])) + epsilon)"
    and e: "\<forall>n < length [constant_sample (- 10)]. \<forall>k < 29. \<forall>i < 34. \<forall>j < 26.
           te ! n ! k ! i ! j = [constant_sample (- 10)] ! n ! k ! i ! j
              / (Max ((\<lambda>s. \<bar>s ! k ! i ! j\<bar>) ` set ([constant_sample 4] @ [constant_sample (- 10)])) + epsilon)"
    by blast
  have "tr ! 0 ! 0 ! 0 ! 0 = 4 / (10 + 1 / 10 ^ 8)"
    using t [rule_format, of 0 0 0 0] by (simp add: constant_sample_def epsilon_def)
  moreover have "te ! 0 ! 0 ! 0 ! 0 = - 10 / (10 + 1 / 10 ^ 8)"
    using e [rule_format, of 0 0 0 0] by (simp add: constant_sample_def epsilon_def)
  ultimately show ?thesis using r by simp
qed

text \<open>
  Claim C4 as it is written divides by the maximum of the channel. With a train sample
  whose channels hold 4 in the first row and 1 below, and a test sample that holds \<open>-10\<close>
  and 2, the maximum of channel 0 over both samples is 10, and the value 1 in the second
  row of the train sample is divided by \<open>2 + epsilon\<close>.
\<close>

lemma spec_channel_max_example: "spec_channel_max [two_row_sample 4 1, two_row_sample (- 10) 2] 0 = 10"
  by (simp add: spec_channel_max_def two_row_sample_def)

theorem cross_sample_channel_counterexample:
  "spec_channel_max [two_row_sample 4 1, two_row_sample (- 10) 2] 0 = 10
   \<and> two_row_sample 4 1 ! 0 ! 1 ! 0 = 1
   \<and> fst (projr (cross_sample [two_row_sample 4 1] [two_row_sample (- 10) 2])) ! 0 ! 0 ! 1 ! 0
       = 1 / (2 + epsilon)
   \<and> 1 / (2 + epsilon) \<noteq> 1 / (10 + epsilon)"
proof -
  have sh: "\<forall>s \<in> set ([two_row_sample 4 1] @ [two_row_sample (- 10) 2]). has_shape 29 34 26 s"
    by (simp add: has_shape_two_row_sample)
  have ne: "[two_row_sample 4 1] @ [two_row_sample (- 10) 2] \<noteq> []" by simp
  from cross_sample_nth [OF sh ne] obtain tr te where
    r: "cross_sample [two_row_sample 4 1] [two_row_sample (- 10) 2] = Inr (tr, te)"
    and t: "\<forall>n < length [two_row_sample 4 1]. \<forall>k < 29. \<forall>i < 34. \<forall>j < 26.
           tr ! n ! k ! i ! j = [two_row_sample 4 1] ! n ! k ! i ! j
              / (Max ((\<lambda>s. \<bar>s ! k ! i ! j\<bar>) ` set ([two_row_sample 4 1] @ [two_row_sample (- 10) 2])) + epsilon)"
    by blast
  have "tr ! 0 ! 0 ! 1 ! 0 = 1 / (2 + epsilon)"
    using t [rule_format, of 0 0 1 0] by (simp add: two_row_sample_def)
  moreover have "two_row_sample 4 1 ! 0 ! 1 ! 0 = 1" by (simp add: two_row_sample_def)
  moreover have "1 / (2 + epsilon) \<noteq> 1 / (10 + epsilon)" by (simp add: epsilon_def)
  ultimately show ?thesis using r spec_channel_max_example by simp
qed

lemma abs_max_nonempty:
  assumes "concat m \<noteq> []"
  shows "abs_max m = Inr (Max (abs ` set (concat m)))"
proof -
  from assms obtain x xs where c: "concat m = x # xs" by (cases "concat m") auto
  have "fold max (map abs xs) \<bar>x\<bar> = Max (set (\<bar>x\<bar> # map abs xs))"
    by (rule Max.set_eq_fold [symmetric])
  then show ?thesis by (simp add: abs_max_def c)
qed

lemma concat_spec_within_channel: "concat m \<noteq> [] \<Longrightarrow> concat (spec_within_channel m) \<noteq> []"
  by (simp add: spec_within_channel_def map_concat [symmetric])

lemma within_sample_loop_result:
  assumes "distinct idxs" "\<forall>k \<in> set idxs. k < length sample"
      and "\<forall>k < length sample. concat (sample ! k) \<noteq> []"
  shows "within_sample_loop sample idxs =
           Inr (map (\<lambda>k. if k \<in> set idxs then spec_within_channel (sample ! k) else sample ! k)
                  [0..<length sample])"
  using assms
proof (induction idxs arbitrary: sample)
  case Nil
  then show ?case by (simp add: map_nth)
next
  case (Cons a rest)
  define sample' where "sample' = sample[a := spec_within_channel (sample ! a)]"
  have a: "a < length sample" "a \<notin> set rest" "distinct rest" using Cons.prems by auto
  have am: "abs_max (sample ! a) = Inr (Max (abs ` set (concat (sample ! a))))"
    using Cons.prems(3) a(1) by (intro abs_max_nonempty) auto
  have step: "within_sample_loop sample (a # rest) = within_sample_loop sample' rest"
    using a(1) am by (simp add: sample'_def spec_within_channel_def Let_def)
  have p2: "\<forall>k \<in> set rest. k < length sample'" using Cons.prems(2) by (simp add: sample'_def)
  have p3: "\<forall>k < length sample'. concat (sample' ! k) \<noteq> []"
  proof (intro allI impI)
    fix k
    assume k: "k < length sample'"
    then have k': "k < length sample" by (simp add: sample'_def)
    show "concat (sample' ! k) \<noteq> []"
    proof (cases "k = a")
      case True
      then have "sample' ! k = spec_within_channel (sample ! a)"
        using k' by (simp add: sample'_def)
      then show ?thesis
        using Cons.prems(3) a(1) concat_spec_within_channel [of "sample ! a"] by simp
    next
      case False
      then have "sample' ! k = sample ! k" by (simp add: sample'_def)
      then show ?thesis using Cons.prems(3) k' by simp
    qed
  qed
  have "within_sample_loop sample' rest =
           Inr (map (\<lambda>k. if k \<in> set rest then spec_within_channel (sample' ! k) else sample' ! k)
                  [0..<length sample'])"
    using a(3) p2 p3 by (rule Cons.IH)
  also have "map (\<lambda>k. if k \<in> set rest then spec_within_channel (sample' ! k) else sample' ! k)
                  [0..<length sample'] =
      map (\<lambda>k. if k \<in> set (a # rest) then spec_within_channel (sample ! k) else sample ! k)
                  [0..<length sample]"
    using a by (auto simp add: sample'_def nth_list_update)
  finally show ?case using step by simp
qed

lemma has_shape_concat:
  assumes "has_shape c h w t" "0 < h" "0 < w" "k < c"
  shows "concat (t ! k) \<noteq> []"
proof -
  have "length (t ! k) = h" "length (t ! k ! 0) = w"
    using has_shape_nth[OF assms(1,4)] assms(2) by auto
  then have "t ! k ! 0 \<in> set (t ! k)" "t ! k ! 0 \<noteq> []" using assms(2,3) by auto
  then show ?thesis by auto
qed

lemma within_sample_29:
  assumes "has_shape 29 34 26 sample"
  shows "within_sample_loop sample [0..<29] = Inr (map spec_within_channel sample)"
proof -
  have len: "length sample = 29" using assms by (rule has_shape_length)
  have ne: "\<forall>k < length sample. concat (sample ! k) \<noteq> []"
    using has_shape_concat[OF assms] len by simp
  have "within_sample_loop sample [0..<29] =
      Inr (map (\<lambda>k. if k \<in> set [0..<29] then spec_within_channel (sample ! k) else sample ! k)
                  [0..<length sample])"
    using ne len by (intro within_sample_loop_result) auto
  also have "map (\<lambda>k. if k \<in> set [0..<29] then spec_within_channel (sample ! k) else sample ! k)
                  [0..<length sample] = map (\<lambda>k. spec_within_channel (sample ! k)) [0..<length sample]"
    using len by auto
  also have "\<dots> = map spec_within_channel (map (\<lambda>k. sample ! k) [0..<length sample])"
    by (simp only: map_map comp_def)
  also have "\<dots> = map spec_within_channel sample"
    by (simp only: map_nth)
  finally show ?thesis .
qed

lemma within_samples_result:
  assumes "\<forall>s \<in> set samples. has_shape 29 34 26 s"
  shows "within_samples samples = Inr (map (map spec_within_channel) samples)"
  using assms by (induction samples) (simp_all add: within_sample_29)

lemma spec_within_channel_bound:
  assumes "r \<in> set (spec_within_channel m)" "x \<in> set r"
  shows "\<bar>x\<bar> < 1"
proof -
  from assms obtain r0 x0 where r0: "r0 \<in> set m" "x0 \<in> set r0"
      and x: "x = x0 / (Max (abs ` set (concat m)) + epsilon)"
    by (auto simp add: spec_within_channel_def)
  have "\<bar>x0\<bar> \<in> abs ` set (concat m)" using r0 by auto
  then have le: "\<bar>x0\<bar> \<le> Max (abs ` set (concat m))" by (intro Max_ge) auto
  have eps: "0 < epsilon" by (simp add: epsilon_def)
  have pos: "0 < Max (abs ` set (concat m)) + epsilon" using le eps by linarith
  have "\<bar>x\<bar> = \<bar>x0\<bar> / (Max (abs ` set (concat m)) + epsilon)"
    using pos by (simp add: x)
  also have "\<dots> < 1" using pos le eps by (simp add: divide_less_eq)
  finally show ?thesis .
qed

text \<open>
  Claim C5. On arrays of the notebook's shape the cell returns, and its result is the
  result of the cross-sample pass with every channel of every sample divided by the
  maximum absolute value of that channel in that sample (after the first pass) plus
  epsilon. Every value of the result is at most 1 in absolute value.
\<close>

theorem normalize_cell_within_sample:
  assumes "\<forall>s \<in> set (train @ test). has_shape 29 34 26 s" and "train @ test \<noteq> []"
  shows "\<exists>tr te. cross_sample train test = Inr (tr, te)
      \<and> normalize_cell train test =
          Inr (map (map spec_within_channel) tr, map (map spec_within_channel) te)
      \<and> (\<forall>s \<in> set (map (map spec_within_channel) tr @ map (map spec_within_channel) te).
           \<forall>m \<in> set s. \<forall>r \<in> set m. \<forall>x \<in> set r. \<bar>x\<bar> \<le> 1)"
proof -
  from cross_sample_nth [OF assms] obtain tr te where
    r: "cross_sample train test = Inr (tr, te)"
    and sh: "\<forall>s \<in> set (tr @ te). has_shape 29 34 26 s"
    by blast
  have "within_samples tr = Inr (map (map spec_within_channel) tr)"
    using sh by (intro within_samples_result) auto
  moreover have "within_samples te = Inr (map (map spec_within_channel) te)"
    using sh by (intro within_samples_result) auto
  ultimately have n: "normalize_cell train test =
          Inr (map (map spec_within_channel) tr, map (map spec_within_channel) te)"
    using r by (simp add: normalize_cell_def)
  have b: "\<forall>s \<in> set (map (map spec_within_channel) tr @ map (map spec_within_channel) te).
           \<forall>m \<in> set s. \<forall>r \<in> set m. \<forall>x \<in> set r. \<bar>x\<bar> \<le> 1"
    using spec_within_channel_bound by (fastforce simp add: less_imp_le)
  from r n b show ?thesis by blast
qed

lemma cross_sample_constant:
  "cross_sample [constant_sample 4] [constant_sample (- 10)] =
     Inr ([constant_sample (4 / (10 + epsilon))], [constant_sample (- 10 / (10 + epsilon))])"
  by (simp add: cross_sample_def max_image_def elementwise_def np_abs_def constant_sample_def Let_def)

lemma spec_within_channel_constant:
  "map spec_within_channel (constant_sample v) = constant_sample (v / (\<bar>v\<bar> + epsilon))"
  by (simp add: spec_within_channel_def constant_sample_def)

theorem normalize_cell_within_sample_witness:
  "normalize_cell [constant_sample 4] [constant_sample (- 10)] =
     Inr ([constant_sample ((4 / (10 + epsilon)) / (4 / (10 + epsilon) + epsilon))],
          [constant_sample ((- 10 / (10 + epsilon)) / (10 / (10 + epsilon) + epsilon))])
   \<and> \<bar>(4 / (10 + epsilon)) / (4 / (10 + epsilon) + epsilon)\<bar> \<le> 1
   \<and> \<bar>(- 10 / (10 + epsilon)) / (10 / (10 + epsilon) + epsilon)\<bar> \<le> 1"
proof -
  have sh: "\<forall>s \<in> set ([constant_sample 4] @ [constant_sample (- 10)]). has_shape 29 34 26 s"
    by (simp add: has_shape_constant_sample)
  have ne: "[constant_sample 4] @ [constant_sample (- 10)] \<noteq> []"
    by simp
  from normalize_cell_within_sample [OF sh ne] cross_sample_constant
  show ?thesis
    by (simp add: spec_within_channel_constant epsilon_def)
qed

section \<open>Properties of the loading and stacking of the feature maps\<close>






















section \<open>From the stacked arrays to the normalization\<close>

text \<open>
  The hypotheses of the two normalization theorems hold for what the cell before builds:
  when every map of every dictionary is a rectangular array, the arrays of
  \<open>combine_cell\<close> have the shape 29, 34, 26 and there is a train sample, so the
  normalization returns.
\<close>

lemma crop_rectangular:
  assumes "rectangular h w m"
  shows "rectangular (min 34 h) (min 26 w) (crop m)"
  using assms by (auto simp add: rectangular_def crop_def list_all_length)

lemma length_stretch:
  assumes "length xs = n \<or> length xs = 1"
  shows "length (stretch n xs) = n"
  using assms by (auto simp add: stretch_def)

lemma set_stretch: "set (stretch n xs) \<subseteq> set xs"
  by (cases xs) (auto simp add: stretch_def)

lemma broadcast_to_crop_shape:
  assumes "rectangular h w v" and "h = 34 \<or> h = 1" and "w = 26 \<or> w = 1"
  shows "rectangular 34 26 (broadcast_to 34 26 v)"
proof -
  have len: "length (map (stretch 26) v) = h"
    using assms(1) by (simp add: rectangular_def)
  have rows: "length r = 26" if "r \<in> set (map (stretch 26) v)" for r
  proof -
    from that obtain r0 where r0: "r0 \<in> set v" "r = stretch 26 r0" by auto
    then have "length r0 = w" using assms(1) by (simp add: rectangular_def list_all_iff)
    then have "length r0 = 26 \<or> length r0 = 1" using assms(3) by simp
    then show ?thesis unfolding r0(2) by (rule length_stretch)
  qed
  have l: "length (broadcast_to 34 26 v) = 34"
    unfolding broadcast_to_def using len assms(2) by (intro length_stretch) simp
  have "set (broadcast_to 34 26 v) \<subseteq> set (map (stretch 26) v)"
    unfolding broadcast_to_def by (rule set_stretch)
  then have "\<forall>r \<in> set (broadcast_to 34 26 v). length r = 26"
    using rows by blast
  with l show ?thesis by (simp add: rectangular_def list_all_iff)
qed

lemma has_shape_update:
  assumes "has_shape c h w t" and "rectangular h w m"
  shows "has_shape c h w (t[k := m])"
proof -
  have "set (t[k := m]) \<subseteq> insert m (set t)"
    by (rule set_update_subset_insert)
  then show ?thesis
    using assms by (auto simp add: has_shape_def rectangular_def list_all_iff)
qed

lemma assign_channel_shape:
  assumes "has_shape 29 34 26 t" and "rectangular h w v" and "assign_channel t k v = Inr t'"
  shows "has_shape 29 34 26 t'"
proof -
  from assms(3) have t': "t' = t[k := broadcast_to 34 26 v]"
    and c: "(fst (shape v) = 34 \<or> fst (shape v) = 1) \<and> (snd (shape v) = 26 \<or> snd (shape v) = 1)"
    by (auto simp add: assign_channel_def split: if_splits)
  from c have "v \<noteq> []" by (auto simp add: shape_def)
  then have "0 < h" using assms(2) by (auto simp add: rectangular_def)
  then have "shape v = (h, w)" using assms(2) by (cases v) (auto simp add: rectangular_def shape_def)
  with c have "rectangular 34 26 (broadcast_to 34 26 v)"
    using assms(2) by (intro broadcast_to_crop_shape [of h w]) auto
  then show ?thesis unfolding t' using assms(1) by (intro has_shape_update)
qed

lemma fill_sample_shape:
  assumes "fill_sample d t0 names = Inr t" and "has_shape 29 34 26 t0"
      and "\<forall>m \<in> snd ` set d. \<exists>h w. rectangular h w m"
  shows "has_shape 29 34 26 t"
  using assms(1,2)
proof (induction names arbitrary: t0)
  case Nil
  then show ?case by simp
next
  case (Cons p rest)
  obtain k name where p: "p = (k, name)" by (cases p)
  from Cons.prems(1) p obtain m t1 where m: "map_of d name = Some m"
    and a: "assign_channel t0 k (crop m) = Inr t1"
    and r: "fill_sample d t1 rest = Inr t"
    by (auto split: option.splits sum.splits)
  from m have "(name, m) \<in> set d" by (rule map_of_SomeD)
  then have "m \<in> snd ` set d" by force
  with assms(3) obtain h w where "rectangular h w m" by blast
  then have "rectangular (min 34 h) (min 26 w) (crop m)" by (rule crop_rectangular)
  with Cons.prems(2) have "has_shape 29 34 26 t1" using a by (rule assign_channel_shape)
  with r show ?case by (rule Cons.IH)
qed

lemma has_shape_zeros_sample: "has_shape 29 34 26 zeros_sample"
  by (simp add: has_shape_def zeros_sample_def list_all_iff)

lemma fill_data_shape:
  assumes "fill_data names ds = Inr ts"
      and "\<forall>d \<in> set ds. \<forall>m \<in> snd ` set d. \<exists>h w. rectangular h w m"
  shows "length ts = length ds \<and> (\<forall>s \<in> set ts. has_shape 29 34 26 s)"
  using assms
proof (induction ds arbitrary: ts)
  case Nil
  then show ?case by simp
next
  case (Cons d rest)
  from Cons.prems(1) obtain t ts' where t: "fill_sample d zeros_sample (enumerate 0 names) = Inr t"
    and r: "fill_data names rest = Inr ts'" and ts: "ts = t # ts'"
    by (auto split: sum.splits)
  have "\<forall>m \<in> snd ` set d. \<exists>h w. rectangular h w m"
    using Cons.prems(2) by simp
  with t has_shape_zeros_sample have "has_shape 29 34 26 t"
    by (rule fill_sample_shape)
  moreover have "\<forall>d \<in> set rest. \<forall>m \<in> snd ` set d. \<exists>h w. rectangular h w m"
    using Cons.prems(2) by simp
  with r have "length ts' = length rest \<and> (\<forall>s \<in> set ts'. has_shape 29 34 26 s)"
    by (rule Cons.IH)
  ultimately show ?case using ts by simp
qed

lemma combine_cell_shape:
  assumes "combine_cell st = Inr (train, test)"
      and "\<forall>d \<in> set (train_features st @ test_features st).
             \<forall>m \<in> snd ` set d. \<exists>h w. rectangular h w m"
  shows "(\<forall>s \<in> set (train @ test). has_shape 29 34 26 s) \<and> train @ test \<noteq> []"
proof -
  from assms(1) obtain first rest where fr: "train_features st = first # rest"
    and a: "fill_data (sort (map fst first)) (train_features st) = Inr train"
    and b: "fill_data (sort (map fst first)) (test_features st) = Inr test"
    by (auto simp add: combine_cell_def Let_def split: list.splits sum.splits)
  have "\<forall>d \<in> set (train_features st). \<forall>m \<in> snd ` set d. \<exists>h w. rectangular h w m"
    using assms(2) by (simp add: ball_Un)
  with a have "length train = length (train_features st) \<and> (\<forall>s \<in> set train. has_shape 29 34 26 s)"
    by (rule fill_data_shape)
  moreover have "\<forall>d \<in> set (test_features st). \<forall>m \<in> snd ` set d. \<exists>h w. rectangular h w m"
    using assms(2) by (simp add: ball_Un)
  with b have "length test = length (test_features st) \<and> (\<forall>s \<in> set test. has_shape 29 34 26 s)"
    by (rule fill_data_shape)
  ultimately show ?thesis using fr by auto
qed


lemma combine_then_normalize:
  assumes "combine_cell st = Inr (train, test)"
      and "\<forall>d \<in> set (train_features st @ test_features st).
             \<forall>m \<in> snd ` set d. \<exists>h w. rectangular h w m"
  shows "\<exists>tr te. cross_sample train test = Inr (tr, te)
      \<and> normalize_cell train test =
            Inr (map (map spec_within_channel) tr, map (map spec_within_channel) te)"
proof -
  from combine_cell_shape [OF assms]
  have sh: "\<forall>s \<in> set (train @ test). has_shape 29 34 26 s" and ne: "train @ test \<noteq> []"
    by simp_all
  from cross_sample_nth [OF sh ne] obtain tr te where
    r: "cross_sample train test = Inr (tr, te)"
    and sh': "\<forall>s \<in> set (tr @ te). has_shape 29 34 26 s"
    by blast
  have "\<forall>s \<in> set tr. has_shape 29 34 26 s"
    using sh' by (simp add: ball_Un)
  then have a: "within_samples tr = Inr (map (map spec_within_channel) tr)"
    by (rule within_samples_result)
  have "\<forall>s \<in> set te. has_shape 29 34 26 s"
    using sh' by (simp add: ball_Un)
  then have b: "within_samples te = Inr (map (map spec_within_channel) te)"
    by (rule within_samples_result)
  from r a b show ?thesis
    by (simp add: normalize_cell_def)
qed

end
